theory Spec2Isabelle
  imports Main
begin

section \<open>The embedding script \<open>minilm_embed.py\<close>\<close>

text \<open>
  The script reads three positional arguments (a JSON array of texts, a model name and a
  dimension), asks the \<open>sentence_transformers\<close> library for one vector per text, and prints
  the vectors as one JSON document. Everything the script calls but does not define is a
  field of the environment \<open>env\<close> below: the outcome of the import, \<open>json.loads\<close>,
  \<open>int\<close>, the \<open>SentenceTransformer\<close> constructor with the \<open>encode\<close> method of the
  model it returns, and \<open>float\<close>. The theorems hold for every environment.

  The type \<open>exn\<close> stands for instances of Python's class \<open>Exception\<close>, named by class
  (a subclass counts as its class: \<open>ModuleNotFoundError\<close> is an \<open>ImportError\<close>).
  Asynchronous interrupts and failing writes to standard output are outside the model,
  and \<open>json.dumps\<close> of a list of lists of floats is taken to succeed. The interpreter
  is a 64-bit CPython: a list repetition raises when its count is no index or its result
  is larger than a list can be; how large a list the machine can hold is the field
  \<open>memory_limit\<close> of the environment.
  Python floats are the type variable \<open>'f\<close>, of which only the literal \<open>0.0\<close> is used
  (written \<open>0\<close>); the components of the model's vectors have the type \<open>'n\<close>.
\<close>

subsection \<open>Python values and exceptions\<close>

datatype exn =
    ImportError
  | IndexError
  | ValueError
  | JSONDecodeError
  | TypeError
  | OverflowError
  | MemoryError
  | OtherException string

text \<open>What \<open>json.loads\<close> can return.\<close>

datatype 'f pyval =
    PyNone
  | PyBool bool
  | PyInt int
  | PyFloat 'f
  | PyStr string
  | PyList "'f pyval list"
  | PyDict "(string \<times> 'f pyval) list"

text \<open>\<open>len(x)\<close>: defined on strings, lists and dicts, a \<open>TypeError\<close> on the rest.\<close>

fun py_len :: "'f pyval \<Rightarrow> exn + nat" where
  "py_len (PyStr s) = Inr (length s)"
| "py_len (PyList xs) = Inr (length xs)"
| "py_len (PyDict kvs) = Inr (length (remdups (map fst kvs)))"
| "py_len PyNone = Inl TypeError"
| "py_len (PyBool b) = Inl TypeError"
| "py_len (PyInt i) = Inl TypeError"
| "py_len (PyFloat x) = Inl TypeError"

text \<open>
  \<open>xs * n\<close> on a list. The count must fit a \<open>Py_ssize_t\<close>, otherwise
  \<open>OverflowError\<close>. A count \<open>n \<le> 0\<close> gives the empty list. A list of more than
  \<open>PY_SSIZE_T_MAX / 8\<close> elements (one pointer each), or of more elements than the machine
  has memory for (\<open>limit\<close>), is a \<open>MemoryError\<close>. Otherwise the result is \<open>n\<close> copies
  of \<open>xs\<close>.
\<close>

definition PY_SSIZE_T_MAX :: int where
  "PY_SSIZE_T_MAX = 2 ^ 63 - 1"

definition count_fits :: "int \<Rightarrow> bool" where
  "count_fits n = (- PY_SSIZE_T_MAX - 1 \<le> n \<and> n \<le> PY_SSIZE_T_MAX)"

definition list_fits :: "nat \<Rightarrow> nat \<Rightarrow> bool" where
  "list_fits limit k = (k = 0 \<or> (int k \<le> PY_SSIZE_T_MAX div 8 \<and> k \<le> limit))"

definition py_repeat :: "nat \<Rightarrow> 'a list \<Rightarrow> int \<Rightarrow> exn + 'a list" where
  "py_repeat limit xs n =
     (if count_fits n then
        if list_fits limit (length xs * nat n) then Inr (concat (replicate (nat n) xs))
        else Inl MemoryError
      else Inl OverflowError)"

text \<open>
  \<open>v[:d]\<close>: the first \<open>d\<close> components when \<open>d \<ge> 0\<close>; for a negative \<open>d\<close> all but the
  last \<open>-d\<close> components.
\<close>

definition slice_to :: "int \<Rightarrow> 'a list \<Rightarrow> 'a list" where
  "slice_to d v = (if 0 \<le> d then take (nat d) v else take (length v - nat (- d)) v)"

text \<open>\<open>sys.argv[i]\<close> raises \<open>IndexError\<close> past the end of the argument list.\<close>

definition argv_index :: "string list \<Rightarrow> nat \<Rightarrow> exn + string" where
  "argv_index argv i = (if i < length argv then Inr (argv ! i) else Inl IndexError)"

text \<open>Sequencing: the first exception raised ends the evaluation.\<close>

definition and_then :: "exn + 'a \<Rightarrow> ('a \<Rightarrow> exn + 'b) \<Rightarrow> exn + 'b" where
  "and_then r k = (case r of Inl e \<Rightarrow> Inl e | Inr x \<Rightarrow> k x)"

subsection \<open>The environment\<close>

text \<open>
  \<open>import_SentenceTransformer\<close> is \<open>None\<close> when the import of line 6 succeeds and
  \<open>Some e\<close> when it raises \<open>e\<close>. A loaded model is its \<open>encode\<close> method.
  \<open>memory_limit\<close> is the largest number of elements of a list the machine can
  allocate.
\<close>

record ('n, 'f) env =
  import_SentenceTransformer :: "exn option"
  json_loads :: "string \<Rightarrow> exn + 'f pyval"
  py_int :: "string \<Rightarrow> exn + int"
  SentenceTransformer :: "string \<Rightarrow> exn + ('f pyval \<Rightarrow> exn + 'n list list)"
  py_float :: "'n \<Rightarrow> exn + 'f"
  memory_limit :: nat

subsection \<open>What a run of the script leaves behind\<close>

text \<open>
  Standard output is the list of documents printed, each the value given to
  \<open>json.dumps\<close>. A run ends by \<open>sys.exit(n)\<close> or by falling off the end of the script
  (\<open>Exit\<close>), or by an exception nobody caught (\<open>Traceback\<close>), which the interpreter
  turns into exit status 1.
\<close>

datatype ending = Exit int | Traceback exn

record 'f outcome =
  stdout :: "'f list list list"
  ending :: ending

fun exit_status :: "ending \<Rightarrow> int" where
  "exit_status (Exit n) = n"
| "exit_status (Traceback e) = 1"

definition print_json :: "'f list list \<Rightarrow> 'f list list list \<Rightarrow> 'f list list list" where
  "print_json doc out = out @ [doc]"

subsection \<open>The script\<close>

text \<open>
  Line 8, the argument of \<open>json.dumps\<close> in the \<open>ImportError\<close> handler:
  \<open>[[0.0]*int(sys.argv[3])] * len(json.loads(sys.argv[1]))\<close>. The left operand is
  evaluated first: the row \<open>[0.0]*int(sys.argv[3])\<close> is built, and can raise, before
  \<open>sys.argv[1]\<close> is read.
\<close>

definition import_fallback :: "('n, 'f::zero) env \<Rightarrow> string list \<Rightarrow> exn + 'f list list" where
  "import_fallback env argv =
     and_then (argv_index argv 3) (\<lambda>a3.
     and_then (py_int env a3) (\<lambda>d.
     and_then (py_repeat (memory_limit env) [0] d) (\<lambda>row.
     and_then (argv_index argv 1) (\<lambda>a1.
     and_then (json_loads env a1) (\<lambda>t.
     and_then (py_len t) (\<lambda>n.
       py_repeat (memory_limit env) [row] (int n)))))))"

text \<open>Lines 10 to 12: \<open>texts\<close>, \<open>model_name\<close> and \<open>dim\<close>, outside every handler.\<close>

definition parse_args :: "('n, 'f) env \<Rightarrow> string list \<Rightarrow> exn + ('f pyval \<times> string \<times> int)" where
  "parse_args env argv =
     and_then (argv_index argv 1) (\<lambda>a1.
     and_then (json_loads env a1) (\<lambda>texts.
     and_then (argv_index argv 2) (\<lambda>model_name.
     and_then (argv_index argv 3) (\<lambda>a3.
     and_then (py_int env a3) (\<lambda>dim.
       Inr (texts, model_name, dim))))))"

text \<open>Lines 14 and 15: load the model and encode the texts.\<close>

definition model_vectors :: "('n, 'f) env \<Rightarrow> string \<Rightarrow> 'f pyval \<Rightarrow> exn + 'n list list" where
  "model_vectors env model_name texts =
     and_then (SentenceTransformer env model_name) (\<lambda>model. model texts)"

text \<open>\<open>list(map(float, xs))\<close>: the first coercion that raises ends the map.\<close>

fun map_float :: "('n \<Rightarrow> exn + 'f) \<Rightarrow> 'n list \<Rightarrow> exn + 'f list" where
  "map_float f [] = Inr []"
| "map_float f (x # xs) =
     and_then (f x) (\<lambda>y. and_then (map_float f xs) (\<lambda>ys. Inr (y # ys)))"

text \<open>Line 17: \<open>[list(map(float, v[:dim])) for v in vectors]\<close>.\<close>

fun truncate_rows :: "('n \<Rightarrow> exn + 'f) \<Rightarrow> int \<Rightarrow> 'n list list \<Rightarrow> exn + 'f list list" where
  "truncate_rows f dim [] = Inr []"
| "truncate_rows f dim (v # vs) =
     and_then (map_float f (slice_to dim v)) (\<lambda>r.
     and_then (truncate_rows f dim vs) (\<lambda>rs. Inr (r # rs)))"

text \<open>Lines 14 to 17, the body of the \<open>try\<close> up to the value that is printed.\<close>

definition try_block :: "('n, 'f) env \<Rightarrow> 'f pyval \<Rightarrow> string \<Rightarrow> int \<Rightarrow> exn + 'f list list" where
  "try_block env texts model_name dim =
     and_then (model_vectors env model_name texts) (truncate_rows (py_float env) dim)"

text \<open>
  Line 20, the argument of \<open>json.dumps\<close> in the second handler:
  \<open>[[0.0]*dim]*len(texts)\<close>, the row first, then \<open>len(texts)\<close>, then the copies.
\<close>

definition zero_fallback :: "nat \<Rightarrow> 'f pyval \<Rightarrow> int \<Rightarrow> exn + ('f::zero) list list" where
  "zero_fallback limit texts dim =
     and_then (py_repeat limit [0] dim) (\<lambda>row.
     and_then (py_len texts) (\<lambda>n.
       py_repeat limit [row] (int n)))"

text \<open>
  An exception nobody catches: nothing is printed. A handler body
  \<open>print(json.dumps(x)); sys.exit(0)\<close>: when evaluating \<open>x\<close> raises inside the
  handler, nobody catches that either.
\<close>

definition uncaught :: "exn \<Rightarrow> 'f outcome" where
  "uncaught e = \<lparr>stdout = [], ending = Traceback e\<rparr>"

definition print_and_exit :: "exn + 'f list list \<Rightarrow> 'f outcome" where
  "print_and_exit x =
     (case x of
        Inl e \<Rightarrow> uncaught e
      | Inr doc \<Rightarrow> \<lparr>stdout = print_json doc [], ending = Exit 0\<rparr>)"

text \<open>
  The whole script. Only \<open>ImportError\<close> is caught around the import; the handler prints
  and exits. Argument parsing is outside both handlers. The second handler catches every
  exception of the \<open>try\<close> body. After a successful \<open>try\<close> the script ends, with
  status 0.
\<close>

definition minilm_embed :: "('n, 'f::zero) env \<Rightarrow> string list \<Rightarrow> 'f outcome" where
  "minilm_embed env argv =
     (case import_SentenceTransformer env of
        Some e \<Rightarrow>
          if e = ImportError then print_and_exit (import_fallback env argv)
          else uncaught e
      | None \<Rightarrow>
          (case parse_args env argv of
             Inl e \<Rightarrow> uncaught e
           | Inr (texts, model_name, dim) \<Rightarrow>
               (case try_block env texts model_name dim of
                  Inr vectors \<Rightarrow> \<lparr>stdout = print_json vectors [], ending = Exit 0\<rparr>
                | Inl e \<Rightarrow> print_and_exit (zero_fallback (memory_limit env) texts dim))))"

subsection \<open>The three failure causes\<close>

definition library_unavailable :: "('n, 'f) env \<Rightarrow> bool" where
  "library_unavailable env = (import_SentenceTransformer env = Some ImportError)"

definition load_raises :: "('n, 'f) env \<Rightarrow> string \<Rightarrow> exn \<Rightarrow> bool" where
  "load_raises env model_name e =
     (import_SentenceTransformer env = None \<and>
      (case SentenceTransformer env model_name of Inl e' \<Rightarrow> e' = e | Inr model \<Rightarrow> False))"

definition inference_raises :: "('n, 'f) env \<Rightarrow> string \<Rightarrow> 'f pyval \<Rightarrow> exn \<Rightarrow> bool" where
  "inference_raises env model_name texts e =
     (import_SentenceTransformer env = None \<and>
      (case SentenceTransformer env model_name of
         Inl e' \<Rightarrow> False
       | Inr model \<Rightarrow> model texts = Inl e))"

definition failure_cause :: "('n, 'f) env \<Rightarrow> string \<Rightarrow> 'f pyval \<Rightarrow> exn \<Rightarrow> bool" where
  "failure_cause env model_name texts e =
     (library_unavailable env \<or> load_raises env model_name e
      \<or> inference_raises env model_name texts e)"


text \<open>
  Python can build the fallback document of \<open>n\<close> rows of \<open>d\<close> zeros: \<open>d\<close> is an
  index, and the row and the list of rows are no larger than a list can be.
\<close>

definition zero_lists_fit :: "nat \<Rightarrow> nat \<Rightarrow> int \<Rightarrow> bool" where
  "zero_lists_fit limit n d = (count_fits d \<and> list_fits limit (nat d) \<and> list_fits limit n)"

text \<open>The zero-vector fallback: \<open>n\<close> vectors of \<open>d\<close> zeros, printed once, exit status 0.\<close>

definition zero_outcome :: "nat \<Rightarrow> int \<Rightarrow> ('f::zero) outcome" where
  "zero_outcome n d = \<lparr>stdout = [replicate n (replicate (nat d) 0)], ending = Exit 0\<rparr>"

subsection \<open>Sample environments\<close>

text \<open>
  Concrete environments for the examples. \<open>sample_json_loads\<close> and \<open>sample_int\<close> do what
  CPython does on the argument strings the examples use (\<open>[]\<close>, the array of
  \<open>hello\<close> and \<open>world\<close>, \<open>not json\<close>; \<open>4\<close>, \<open>2\<close>, \<open>-1\<close>, \<open>four\<close>, and the integers
  \<open>2 ^ 63\<close> and \<open>- 2 ^ 63 - 1\<close> in decimal).
  \<open>sample_encode\<close> is a model with three components per vector; the sample numbers
  are integers.
\<close>

definition hello_world :: string where
  \<open>hello_world = ''["hello", "world"]''\<close>

definition sample_json_loads :: "string \<Rightarrow> exn + int pyval" where
  "sample_json_loads s =
     (if s = ''[]'' then Inr (PyList [])
      else if s = hello_world then Inr (PyList [PyStr ''hello'', PyStr ''world''])
      else Inl JSONDecodeError)"

definition sample_int :: "string \<Rightarrow> exn + int" where
  "sample_int s =
     (if s = ''4'' then Inr 4
      else if s = ''2'' then Inr 2
      else if s = ''-1'' then Inr (- 1)
      else if s = ''9223372036854775808'' then Inr 9223372036854775808
      else if s = ''-9223372036854775809'' then Inr (- 9223372036854775809)
      else Inl ValueError)"

definition sample_encode :: "int pyval \<Rightarrow> exn + int list list" where
  "sample_encode texts =
     (case texts of
        PyList ts \<Rightarrow> Inr (map (\<lambda>t. [1, 2, 3]) ts)
      | _ \<Rightarrow> Inl TypeError)"

definition env_working :: "(int, int) env" where
  "env_working =
     \<lparr>import_SentenceTransformer = None, json_loads = sample_json_loads,
      py_int = sample_int, SentenceTransformer = (\<lambda>name. Inr sample_encode),
      py_float = Inr, memory_limit = 1000000\<rparr>"

definition env_missing :: "(int, int) env" where
  "env_missing = env_working\<lparr>import_SentenceTransformer := Some ImportError\<rparr>"

definition env_load_fails :: "(int, int) env" where
  "env_load_fails =
     env_working\<lparr>SentenceTransformer := (\<lambda>name. Inl (OtherException ''OSError''))\<rparr>"

definition env_encode_fails :: "(int, int) env" where
  "env_encode_fails =
     env_working\<lparr>SentenceTransformer :=
       (\<lambda>name. Inr (\<lambda>texts. Inl (OtherException ''RuntimeError'')))\<rparr>"



section \<open>Properties\<close>

subsection \<open>Auxiliary facts\<close>

lemma concat_replicate_single: "concat (replicate k [x]) = replicate k x"
  by (induction k) simp_all

lemma py_repeat_single:
  "count_fits n \<Longrightarrow> list_fits limit (nat n) \<Longrightarrow>
   py_repeat limit [x] n = Inr (replicate (nat n) x)"
  by (simp add: py_repeat_def concat_replicate_single)

lemma py_repeat_single_Inr:
  "py_repeat limit [x] n = Inr r \<Longrightarrow> r = replicate (nat n) x"
  by (auto simp: py_repeat_def concat_replicate_single split: if_splits)

lemma py_repeat_overflow: "\<not> count_fits n \<Longrightarrow> py_repeat limit xs n = Inl OverflowError"
  by (simp add: py_repeat_def)

lemma list_fits_count: "list_fits limit n \<Longrightarrow> count_fits (int n)"
  by (auto simp: list_fits_def count_fits_def PY_SSIZE_T_MAX_def)

lemma zero_fallback_ok:
  assumes "zero_lists_fit limit n d" and "py_len texts = Inr n"
  shows "zero_fallback limit texts d = Inr (replicate n (replicate (nat d) 0))"
proof -
  from assms(1) have d: "count_fits d" "list_fits limit (nat d)" and n: "list_fits limit n"
    by (simp_all add: zero_lists_fit_def)
  from n have "py_repeat limit [replicate (nat d) (0::'a)] (int n)
               = Inr (replicate n (replicate (nat d) 0))"
    using py_repeat_single [OF list_fits_count [OF n], of limit] by simp
  with d assms(2) show ?thesis
    by (simp add: zero_fallback_def and_then_def py_repeat_single)
qed

lemma zero_fallback_Inr:
  assumes "zero_fallback limit texts d = Inr doc"
  shows "\<exists>n. py_len texts = Inr n \<and> doc = replicate n (replicate (nat d) 0)"
proof -
  from assms obtain row n where row: "py_repeat limit [0] d = Inr row"
    and n: "py_len texts = Inr n" and doc: "py_repeat limit [row] (int n) = Inr doc"
    by (auto simp: zero_fallback_def and_then_def split: sum.splits)
  from py_repeat_single_Inr [OF row] py_repeat_single_Inr [OF doc] n show ?thesis by simp
qed

lemma zero_fallback_row_raises:
  "py_repeat limit [0::'f::zero] d = Inl e \<Longrightarrow> zero_fallback limit (texts :: 'f pyval) d = Inl e"
  by (simp add: zero_fallback_def and_then_def)

lemma import_fallback_parsed:
  assumes "json_loads env a1 = Inr texts" and "py_int env a3 = Inr d"
  shows "import_fallback env (prog # a1 # model_name # a3 # rest)
         = zero_fallback (memory_limit env) texts d"
  using assms
  by (simp add: import_fallback_def zero_fallback_def argv_index_def and_then_def
      split: sum.splits)

lemma parse_args_ok:
  assumes "json_loads env a1 = Inr texts" and "py_int env a3 = Inr d"
  shows "parse_args env (prog # a1 # model_name # a3 # rest) = Inr (texts, model_name, d)"
  using assms by (simp add: parse_args_def argv_index_def and_then_def)

lemma run_parsed:
  assumes "json_loads env a1 = Inr texts" and "py_int env a3 = Inr d"
  shows "minilm_embed env (prog # a1 # model_name # a3 # rest) =
     (case import_SentenceTransformer env of
        Some e \<Rightarrow>
          if e = ImportError then print_and_exit (zero_fallback (memory_limit env) texts d)
          else uncaught e
      | None \<Rightarrow>
         (case try_block env texts model_name d of
            Inr vectors \<Rightarrow> \<lparr>stdout = [vectors], ending = Exit 0\<rparr>
          | Inl e \<Rightarrow> print_and_exit (zero_fallback (memory_limit env) texts d)))"
  using import_fallback_parsed [OF assms] parse_args_ok [OF assms]
  by (simp add: minilm_embed_def print_json_def split: option.splits sum.splits)

lemma run_try_succeeds:
  assumes "import_SentenceTransformer env = None"
    and "json_loads env a1 = Inr texts" and "py_int env a3 = Inr d"
    and "try_block env texts model_name d = Inr vectors"
  shows "minilm_embed env (prog # a1 # model_name # a3 # rest)
         = \<lparr>stdout = [vectors], ending = Exit 0\<rparr>"
  using assms(1,4) by (simp add: run_parsed [OF assms(2,3)])

lemma load_raises_try_block:
  "load_raises env model_name e \<Longrightarrow> try_block env texts model_name d = Inl e"
  by (auto simp: load_raises_def try_block_def model_vectors_def and_then_def
      split: sum.splits)

lemma inference_raises_try_block:
  "inference_raises env model_name texts e \<Longrightarrow> try_block env texts model_name d = Inl e"
  by (auto simp: inference_raises_def try_block_def model_vectors_def and_then_def
      split: sum.splits)

text \<open>Every failure cause ends in the handler expression, whatever it gives.\<close>

lemma run_failure_cause:
  assumes "failure_cause env model_name texts e"
    and "json_loads env a1 = Inr texts" and "py_int env a3 = Inr d"
  shows "minilm_embed env (prog # a1 # model_name # a3 # rest)
         = print_and_exit (zero_fallback (memory_limit env) texts d)"
proof -
  consider (missing) "library_unavailable env"
    | (load) "load_raises env model_name e"
    | (infer) "inference_raises env model_name texts e"
    using assms(1) by (auto simp: failure_cause_def)
  then show ?thesis
  proof cases
    case missing
    then show ?thesis
      by (simp add: run_parsed [OF assms(2,3)] library_unavailable_def)
  next
    case load
    then have "import_SentenceTransformer env = None" by (simp add: load_raises_def)
    with load_raises_try_block [OF load, of texts d] show ?thesis
      by (simp add: run_parsed [OF assms(2,3)])
  next
    case infer
    then have "import_SentenceTransformer env = None" by (simp add: inference_raises_def)
    with inference_raises_try_block [OF infer, of d] show ?thesis
      by (simp add: run_parsed [OF assms(2,3)])
  qed
qed

lemma print_and_exit_zeros:
  assumes "zero_lists_fit limit n d" and "py_len texts = Inr n"
  shows "print_and_exit (zero_fallback limit texts d) = zero_outcome n d"
  by (simp add: zero_fallback_ok [OF assms] print_and_exit_def print_json_def zero_outcome_def)

lemma print_and_exit_zero_fallback_stdout:
  assumes "stdout (print_and_exit (zero_fallback limit texts d)) = [doc]"
  shows "\<exists>n. py_len texts = Inr n \<and> doc = replicate n (replicate (nat d) 0)"
proof (cases "zero_fallback limit texts d")
  case (Inl e)
  with assms show ?thesis by (simp add: print_and_exit_def uncaught_def)
next
  case (Inr doc')
  with assms have "doc' = doc" by (simp add: print_and_exit_def print_json_def)
  with zero_fallback_Inr Inr show ?thesis by blast
qed

lemma slice_to_length:
  "0 \<le> d \<Longrightarrow> length (slice_to d v) = min (nat d) (length v)"
  by (simp add: slice_to_def min_def)

lemma slice_to_nonneg: "0 \<le> d \<Longrightarrow> slice_to d v = take (nat d) v"
  by (simp add: slice_to_def)

lemma map_float_length: "map_float f xs = Inr ys \<Longrightarrow> length ys = length xs"
  by (induction xs arbitrary: ys) (auto simp: and_then_def split: sum.splits)

lemma map_float_total:
  "(\<And>x. x \<in> set xs \<Longrightarrow> f x = Inr (g x)) \<Longrightarrow> map_float f xs = Inr (map g xs)"
  by (induction xs) (simp_all add: and_then_def)

lemma truncate_rows_Inr:
  "truncate_rows f d vs = Inr rs \<Longrightarrow>
     length rs = length vs
     \<and> (\<forall>i<length vs. map_float f (slice_to d (vs ! i)) = Inr (rs ! i))"
proof (induction vs arbitrary: rs)
  case Nil
  then show ?case by simp
next
  case (Cons v vs)
  from Cons.prems obtain r rs' where r: "map_float f (slice_to d v) = Inr r"
    and rs': "truncate_rows f d vs = Inr rs'" and rs: "rs = r # rs'"
    by (auto simp: and_then_def split: sum.splits)
  from Cons.IH [OF rs'] r rs show ?case
    by (auto simp: nth_Cons split: nat.splits)
qed

lemma truncate_rows_lengths:
  assumes "truncate_rows f d vs = Inr rs"
  shows "map length rs = map (\<lambda>v. length (slice_to d v)) vs"
proof (rule nth_equalityI)
  show "length (map length rs) = length (map (\<lambda>v. length (slice_to d v)) vs)"
    using truncate_rows_Inr [OF assms] by simp
next
  fix i assume "i < length (map length rs)"
  then have i: "i < length vs" using truncate_rows_Inr [OF assms] by simp
  then have "map_float f (slice_to d (vs ! i)) = Inr (rs ! i)"
    using truncate_rows_Inr [OF assms] by simp
  then have "length (rs ! i) = length (slice_to d (vs ! i))"
    by (rule map_float_length)
  then show "map length rs ! i = map (\<lambda>v. length (slice_to d v)) vs ! i"
    using i truncate_rows_Inr [OF assms] by simp
qed

lemma truncate_rows_total:
  "(\<And>v x. v \<in> set vs \<Longrightarrow> x \<in> set (slice_to d v) \<Longrightarrow> f x = Inr (g x)) \<Longrightarrow>
   truncate_rows f d vs = Inr (map (\<lambda>v. map g (slice_to d v)) vs)"
proof (induction vs)
  case Nil
  then show ?case by simp
next
  case (Cons v vs)
  have "map_float f (slice_to d v) = Inr (map g (slice_to d v))"
    using Cons.prems by (intro map_float_total) auto
  moreover have "truncate_rows f d vs = Inr (map (\<lambda>v. map g (slice_to d v)) vs)"
    using Cons.prems by (intro Cons.IH) auto
  ultimately show ?case by (simp add: and_then_def)
qed

lemma try_block_vectors:
  "model_vectors env model_name texts = Inr vectors \<Longrightarrow>
   try_block env texts model_name d = truncate_rows (py_float env) d vectors"
  by (simp add: try_block_def and_then_def)


text \<open>The sample environments on the arguments of the examples.\<close>

lemma sample_json_loads_simps:
  "sample_json_loads hello_world = Inr (PyList [PyStr ''hello'', PyStr ''world''])"
  "sample_json_loads ''[]'' = Inr (PyList [])"
  "sample_json_loads ''not json'' = Inl JSONDecodeError"
  by (simp_all add: sample_json_loads_def hello_world_def)

lemma sample_int_simps:
  "sample_int ''4'' = Inr 4"
  "sample_int ''2'' = Inr 2"
  "sample_int ''-1'' = Inr (- 1)"
  "sample_int ''four'' = Inl ValueError"
  "sample_int ''9223372036854775808'' = Inr 9223372036854775808"
  "sample_int ''-9223372036854775809'' = Inr (- 9223372036854775809)"
  by (simp_all add: sample_int_def)

lemma sample_env_simps:
  "json_loads env_working = sample_json_loads"
  "json_loads env_missing = sample_json_loads"
  "json_loads env_load_fails = sample_json_loads"
  "json_loads env_encode_fails = sample_json_loads"
  "py_int env_working = sample_int"
  "py_int env_missing = sample_int"
  "py_int env_load_fails = sample_int"
  "py_int env_encode_fails = sample_int"
  "import_SentenceTransformer env_working = None"
  "import_SentenceTransformer env_missing = Some ImportError"
  "import_SentenceTransformer env_load_fails = None"
  "import_SentenceTransformer env_encode_fails = None"
  "SentenceTransformer env_working name = Inr sample_encode"
  "SentenceTransformer env_load_fails name = Inl (OtherException ''OSError'')"
  "py_float env_working = Inr"
  "memory_limit env_working = 1000000"
  "memory_limit env_missing = 1000000"
  "memory_limit env_load_fails = 1000000"
  "memory_limit env_encode_fails = 1000000"
  by (simp_all add: env_working_def env_missing_def env_load_fails_def env_encode_fails_def)

lemma sample_failures:
  "library_unavailable env_missing"
  "load_raises env_load_fails name (OtherException ''OSError'')"
  "inference_raises env_encode_fails name texts (OtherException ''RuntimeError'')"
  by (simp_all add: library_unavailable_def load_raises_def inference_raises_def
      env_working_def env_missing_def env_load_fails_def env_encode_fails_def)



lemma sample_runs:
  "minilm_embed env_working [''minilm_embed.py'', hello_world, ''all-MiniLM-L6-v2'', ''2'']
     = \<lparr>stdout = [[[1, 2], [1, 2]]], ending = Exit 0\<rparr>"
  "minilm_embed env_working [''minilm_embed.py'', hello_world, ''all-MiniLM-L6-v2'', ''4'']
     = \<lparr>stdout = [[[1, 2, 3], [1, 2, 3]]], ending = Exit 0\<rparr>"
  by (simp_all add: minilm_embed_def parse_args_def argv_index_def and_then_def
      try_block_def model_vectors_def slice_to_def print_json_def
      sample_env_simps sample_json_loads_simps sample_int_simps sample_encode_def)

lemma sample_fits:
  "zero_lists_fit 1000000 2 2"
  "\<not> count_fits 9223372036854775808"
  "\<not> count_fits (- 9223372036854775809)"
  by (simp_all add: zero_lists_fit_def count_fits_def list_fits_def PY_SSIZE_T_MAX_def)

subsection \<open>The zero-vector fallback\<close>




text \<open>
  Claim C10 says that any integer dimension \<open>d \<le> 0\<close> is accepted and gives empty vectors
  on every fallback path. A dimension below \<open>- 2 ^ 63\<close> is no index: the repetition in
  the handler raises \<open>OverflowError\<close>, nothing is printed and the exit status is 1.
\<close>

theorem negative_dimension_counterexample:
  "py_int env_missing ''-9223372036854775809'' = Inr (- 9223372036854775809)
   \<and> library_unavailable env_missing
   \<and> stdout (minilm_embed env_missing
        [''minilm_embed.py'', hello_world, ''all-MiniLM-L6-v2'', ''-9223372036854775809'']) = []
   \<and> exit_status (ending (minilm_embed env_missing
        [''minilm_embed.py'', hello_world, ''all-MiniLM-L6-v2'', ''-9223372036854775809''])) = 1"
proof -
  have texts: "json_loads env_missing hello_world
               = Inr (PyList [PyStr ''hello'', PyStr ''world''])"
    by (simp add: sample_env_simps sample_json_loads_simps)
  have dim: "py_int env_missing ''-9223372036854775809'' = Inr (- 9223372036854775809)"
    by (simp add: sample_env_simps sample_int_simps)
  have "failure_cause env_missing ''all-MiniLM-L6-v2''
      (PyList [PyStr ''hello'', PyStr ''world'']) ImportError"
    by (simp add: failure_cause_def sample_failures)
  from run_failure_cause [OF this texts dim, of "''minilm_embed.py''" "[]"] dim
    sample_failures(1)
  show ?thesis
    by (simp add: zero_fallback_row_raises [OF py_repeat_overflow [OF sample_fits(3)]]
        print_and_exit_def uncaught_def)
qed

text \<open>
  Claim C10, amended. The script never checks that the dimension is positive: for any
  integer dimension \<open>d\<close> with \<open>- 2 ^ 63 \<le> d \<le> 0\<close> and any list of input texts (of a
  length a list can have) the invocation is accepted, and on every fallback path
  (library missing, or the load or the inference raising) each output vector is the empty
  list, so the output is \<open>len(input_texts)\<close> empty vectors with exit status 0.
\<close>

theorem nonpositive_dimension_accepted:
  fixes env :: "('n, 'f::zero) env"
  assumes "json_loads env a1 = Inr (PyList ts)"
    and "py_int env a3 = Inr d" and "d \<le> 0" and "- (2 ^ 63) \<le> d"
    and "list_fits (memory_limit env) (length ts)"
    and "library_unavailable env \<or> load_raises env model_name e
         \<or> inference_raises env model_name (PyList ts) e"
  shows "stdout (minilm_embed env (prog # a1 # model_name # a3 # rest))
           = [replicate (length ts) []]
         \<and> exit_status (ending (minilm_embed env (prog # a1 # model_name # a3 # rest))) = 0"
proof -
  have fits: "zero_lists_fit (memory_limit env) (length ts) d"
    using assms(3,4,5)
    by (simp add: zero_lists_fit_def count_fits_def list_fits_def PY_SSIZE_T_MAX_def)
  have "failure_cause env model_name (PyList ts) e"
    using assms(6) by (simp add: failure_cause_def)
  from run_failure_cause [OF this assms(1,2)]
  have "minilm_embed env (prog # a1 # model_name # a3 # rest) = zero_outcome (length ts) d"
    by (simp add: print_and_exit_zeros [OF fits])
  then show ?thesis using assms(3) by (simp add: zero_outcome_def)
qed

theorem nonpositive_dimension_accepted_witness:
  "py_int env_missing ''-1'' = Inr (- 1) \<and> library_unavailable env_missing
   \<and> stdout (minilm_embed env_missing
        [''minilm_embed.py'', hello_world, ''all-MiniLM-L6-v2'', ''-1'']) = [[[], []]]
   \<and> exit_status (ending (minilm_embed env_missing
        [''minilm_embed.py'', hello_world, ''all-MiniLM-L6-v2'', ''-1''])) = 0"
proof -
  have texts: "json_loads env_missing hello_world
               = Inr (PyList [PyStr ''hello'', PyStr ''world''])"
    by (simp add: sample_env_simps sample_json_loads_simps)
  have dim: "py_int env_missing ''-1'' = Inr (- 1)"
    by (simp add: sample_env_simps sample_int_simps)
  have neg: "(- 1 :: int) \<le> 0" and low: "- (2 ^ 63) \<le> (- 1 :: int)" by simp_all
  have n: "list_fits (memory_limit env_missing)
      (length [PyStr ''hello'', PyStr ''world'' :: int pyval])"
    by (simp add: sample_env_simps list_fits_def PY_SSIZE_T_MAX_def)
  have cause: "library_unavailable env_missing
      \<or> load_raises env_missing ''all-MiniLM-L6-v2'' ImportError
      \<or> inference_raises env_missing ''all-MiniLM-L6-v2''
           (PyList [PyStr ''hello'', PyStr ''world'']) ImportError"
    by (simp add: sample_failures)
  from nonpositive_dimension_accepted [where prog = "''minilm_embed.py''" and rest = "[]",
      OF texts dim neg low n cause] dim sample_failures(1)
  show ?thesis by (simp add: numeral_eq_Suc)
qed



subsection \<open>Exit status and uncaught failures\<close>

text \<open>
  Claim C5 says that an invocation whose first argument is not valid JSON ends in the
  unhandled parsing failure. With the library missing, line 8 builds \<open>[0.0]*int(sys.argv[3])\<close>
  before it reads \<open>sys.argv[1]\<close>: when the dimension parses but is no index, the run
  ends in the \<open>OverflowError\<close> of the repetition and \<open>json.loads\<close> is never called.
\<close>

theorem parsing_failure_counterexample:
  "json_loads env_missing ''not json'' = Inl JSONDecodeError
   \<and> py_int env_missing ''9223372036854775808'' = Inr 9223372036854775808
   \<and> ending (minilm_embed env_missing
        [''minilm_embed.py'', ''not json'', ''all-MiniLM-L6-v2'', ''9223372036854775808''])
      = Traceback OverflowError"
  by (simp add: minilm_embed_def import_fallback_def argv_index_def and_then_def
      print_and_exit_def uncaught_def sample_env_simps sample_json_loads_simps
      sample_int_simps py_repeat_overflow [OF sample_fits(2)])

text \<open>
  Claim C5, amended. When the first argument is not valid JSON or the third is not an
  integer, no handler intercepts the failure: nothing is printed, there is no
  zero-vector fallback, and the script ends in an uncaught exception with a non-zero
  exit status. That exception is the parsing failure itself when the import succeeded,
  and also when the import raised \<open>ImportError\<close> unless the dimension parses and the
  repetition \<open>[0.0]*dimension\<close> raises first.
\<close>

theorem malformed_arguments_uncaught:
  fixes env :: "('n, 'f::zero) env"
  assumes "json_loads env a1 = Inl e1 \<or> py_int env a3 = Inl e3"
  shows "let r = minilm_embed env (prog # a1 # model_name # a3 # rest) in
           stdout r = [] \<and> exit_status (ending r) = 1
           \<and> (\<exists>e. ending r = Traceback e)
           \<and> (import_SentenceTransformer env = None
               \<or> (library_unavailable env
                  \<and> (\<forall>d. py_int env a3 = Inr d
                        \<longrightarrow> count_fits d \<and> list_fits (memory_limit env) (nat d)))
               \<longrightarrow> (\<exists>e. ending r = Traceback e
                     \<and> (json_loads env a1 = Inl e \<or> py_int env a3 = Inl e)))"
proof (cases "import_SentenceTransformer env")
  case None
  with assms show ?thesis
    by (cases "json_loads env a1"; cases "py_int env a3")
      (auto simp: minilm_embed_def parse_args_def argv_index_def and_then_def uncaught_def
        library_unavailable_def Let_def)
next
  case (Some e)
  show ?thesis
  proof (cases "e = ImportError")
    case False
    with Some show ?thesis
      by (simp add: minilm_embed_def uncaught_def library_unavailable_def Let_def)
  next
    case True
    show ?thesis
    proof (cases "py_int env a3")
      case (Inl e')
      with Some True show ?thesis
        by (auto simp: minilm_embed_def import_fallback_def argv_index_def and_then_def
            print_and_exit_def uncaught_def Let_def)
    next
      case (Inr d)
      with assms obtain e1' where bad: "json_loads env a1 = Inl e1'"
        by (cases "json_loads env a1") auto
      show ?thesis
      proof (cases "py_repeat (memory_limit env) [0::'f] d")
        case (Inl e')
        then have "\<not> (count_fits d \<and> list_fits (memory_limit env) (nat d))"
          by (auto simp: py_repeat_def)
        with Some True Inr Inl show ?thesis
          by (auto simp: minilm_embed_def import_fallback_def argv_index_def and_then_def
              print_and_exit_def uncaught_def library_unavailable_def Let_def)
      next
        case row: (Inr row)
        with Some True Inr bad show ?thesis
          by (auto simp: minilm_embed_def import_fallback_def argv_index_def and_then_def
              print_and_exit_def uncaught_def Let_def)
      qed
    qed
  qed
qed

theorem malformed_arguments_uncaught_witness:
  "json_loads env_missing ''not json'' = Inl JSONDecodeError
   \<and> stdout (minilm_embed env_missing
        [''minilm_embed.py'', ''not json'', ''all-MiniLM-L6-v2'', ''4'']) = []
   \<and> ending (minilm_embed env_missing
        [''minilm_embed.py'', ''not json'', ''all-MiniLM-L6-v2'', ''4''])
      = Traceback JSONDecodeError
   \<and> exit_status (ending (minilm_embed env_missing
        [''minilm_embed.py'', ''not json'', ''all-MiniLM-L6-v2'', ''4''])) = 1"
proof -
  have bad: "json_loads env_missing ''not json'' = Inl JSONDecodeError"
    by (simp add: sample_env_simps sample_json_loads_simps)
  then have "json_loads env_missing ''not json'' = Inl JSONDecodeError
      \<or> py_int env_missing ''4'' = Inl ValueError"
    by simp
  from malformed_arguments_uncaught [OF this,
      where prog = "''minilm_embed.py''" and model_name = "''all-MiniLM-L6-v2''"
        and rest = "[]"]
    bad sample_failures(1)
  show ?thesis
    by (auto simp: Let_def sample_env_simps sample_int_simps count_fits_def list_fits_def
        PY_SSIZE_T_MAX_def)
qed




subsection \<open>How often the script prints\<close>

text \<open>
  Claim C8 says every invocation writes its output exactly once. An invocation whose
  dimension argument is no integer writes nothing.
\<close>

theorem nothing_written_counterexample:
  "stdout (minilm_embed env_working
     [''minilm_embed.py'', hello_world, ''all-MiniLM-L6-v2'', ''four'']) = []"
  by (simp add: minilm_embed_def parse_args_def argv_index_def and_then_def uncaught_def
      sample_env_simps sample_json_loads_simps sample_int_simps)

text \<open>
  Claim C8, amended. No invocation writes two documents. An invocation writes exactly one
  document when it ends with \<open>Exit 0\<close> (the success path and both fallbacks), and
  none when it ends in an uncaught exception.
\<close>

theorem at_most_one_document:
  "length (stdout (minilm_embed env argv)) \<le> 1
   \<and> (length (stdout (minilm_embed env argv)) = 1
        \<longleftrightarrow> ending (minilm_embed env argv) = Exit 0)
   \<and> (stdout (minilm_embed env argv) = []
        \<longleftrightarrow> (\<exists>e. ending (minilm_embed env argv) = Traceback e))"
  by (simp add: minilm_embed_def print_and_exit_def uncaught_def print_json_def
      split: option.splits sum.splits prod.splits)

subsection \<open>The shape of the output\<close>

text \<open>
  Claim C6. On the success path (the import, the load and the inference succeed, and so
  does every coercion) output vector \<open>i\<close> is the first \<open>dimension\<close> components of the
  model's vector \<open>i\<close>, each coerced by \<open>float\<close>. The dimension is not negative here: for
  a negative one \<open>v[:dim]\<close> drops components from the end instead.
\<close>

theorem success_truncates_and_coerces:
  assumes "json_loads env a1 = Inr texts" and "py_int env a3 = Inr d" and "0 \<le> d"
    and "import_SentenceTransformer env = None"
    and "SentenceTransformer env model_name = Inr model"
    and "model texts = Inr vectors"
    and "\<And>v x. v \<in> set vectors \<Longrightarrow> x \<in> set (take (nat d) v)
           \<Longrightarrow> py_float env x = Inr (to_float x)"
  shows "stdout (minilm_embed env (prog # a1 # model_name # a3 # rest))
           = [map (\<lambda>v. map to_float (take (nat d) v)) vectors]
         \<and> ending (minilm_embed env (prog # a1 # model_name # a3 # rest)) = Exit 0"
proof -
  have "model_vectors env model_name texts = Inr vectors"
    using assms(5,6) by (simp add: model_vectors_def and_then_def)
  then have "try_block env texts model_name d = truncate_rows (py_float env) d vectors"
    by (rule try_block_vectors)
  also have "\<dots> = Inr (map (\<lambda>v. map to_float (slice_to d v)) vectors)"
    using assms(7) by (intro truncate_rows_total) (simp add: slice_to_nonneg [OF assms(3)])
  finally have "try_block env texts model_name d
      = Inr (map (\<lambda>v. map to_float (take (nat d) v)) vectors)"
    by (simp add: slice_to_nonneg [OF assms(3)])
  from run_try_succeeds [OF assms(4,1,2) this] show ?thesis by simp
qed

theorem success_truncates_and_coerces_witness:
  "SentenceTransformer env_working ''all-MiniLM-L6-v2'' = Inr sample_encode
   \<and> sample_encode (PyList [PyStr ''hello'', PyStr ''world'']) = Inr [[1, 2, 3], [1, 2, 3]]
   \<and> stdout (minilm_embed env_working
        [''minilm_embed.py'', hello_world, ''all-MiniLM-L6-v2'', ''2''])
      = [[[1, 2], [1, 2]]]
   \<and> ending (minilm_embed env_working
        [''minilm_embed.py'', hello_world, ''all-MiniLM-L6-v2'', ''2'']) = Exit 0"
proof -
  have texts: "json_loads env_working hello_world
               = Inr (PyList [PyStr ''hello'', PyStr ''world''])"
    by (simp add: sample_env_simps sample_json_loads_simps)
  have dim: "py_int env_working ''2'' = Inr 2"
    by (simp add: sample_env_simps sample_int_simps)
  have pos: "(0::int) \<le> 2" by simp
  have imp: "import_SentenceTransformer env_working = None"
    by (simp add: sample_env_simps)
  have load: "SentenceTransformer env_working ''all-MiniLM-L6-v2'' = Inr sample_encode"
    by (simp add: sample_env_simps)
  have enc: "sample_encode (PyList [PyStr ''hello'', PyStr ''world''])
             = Inr [[1, 2, 3], [1, 2, 3]]"
    by (simp add: sample_encode_def)
  have coerce: "\<And>v x. py_float env_working x = Inr (id x)"
    by (simp add: sample_env_simps)
  from success_truncates_and_coerces [where prog = "''minilm_embed.py''" and rest = "[]",
      OF texts dim pos imp load enc coerce] load enc
  show ?thesis by (simp add: numeral_eq_Suc)
qed

text \<open>
  Claim C2. On every path that produces output, the output list is as long as the list
  of input texts, and the vectors correspond to the texts by position: on a fallback path
  every position holds the zero vector, on the success path position \<open>i\<close> holds the
  truncated, coerced vector \<open>i\<close> of the model. On the success path the script prints one
  vector per vector the model returned, so the length is that of the input exactly as far
  as \<open>encode\<close> returns one vector per text, which is the assumption here.
\<close>

theorem output_length_matches_texts:
  fixes env :: "('n, 'f::zero) env"
  assumes "json_loads env a1 = Inr (PyList ts)" and "py_int env a3 = Inr d"
    and "stdout (minilm_embed env (prog # a1 # model_name # a3 # rest)) = [doc]"
    and "\<And>vectors. model_vectors env model_name (PyList ts) = Inr vectors
           \<Longrightarrow> length vectors = length ts"
  shows "length doc = length ts
         \<and> (library_unavailable env
              \<or> (\<exists>e. try_block env (PyList ts) model_name d = Inl e)
            \<longrightarrow> (\<forall>i<length ts. doc ! i = replicate (nat d) 0))
         \<and> (\<forall>vectors. import_SentenceTransformer env = None
               \<and> model_vectors env model_name (PyList ts) = Inr vectors
               \<and> try_block env (PyList ts) model_name d = Inr doc
            \<longrightarrow> (\<forall>i<length ts.
                  map_float (py_float env) (slice_to d (vectors ! i)) = Inr (doc ! i)))"
proof (cases "import_SentenceTransformer env")
  case (Some e)
  with assms(3) have out: "stdout (print_and_exit (zero_fallback (memory_limit env) (PyList ts) d)) = [doc]"
    by (simp add: run_parsed [OF assms(1,2)] uncaught_def split: if_splits)
  from print_and_exit_zero_fallback_stdout [OF out] Some show ?thesis
    by auto
next
  case None
  show ?thesis
  proof (cases "try_block env (PyList ts) model_name d")
    case (Inl e)
    with None assms(3)
    have out: "stdout (print_and_exit (zero_fallback (memory_limit env) (PyList ts) d)) = [doc]"
      by (simp add: run_parsed [OF assms(1,2)])
    from print_and_exit_zero_fallback_stdout [OF out] Inl show ?thesis
      by auto
  next
    case (Inr rows)
    with None assms(3) have doc: "doc = rows"
      by (simp add: run_parsed [OF assms(1,2)])
    from Inr obtain vectors where mv: "model_vectors env model_name (PyList ts) = Inr vectors"
      by (auto simp: try_block_def and_then_def split: sum.splits)
    then have n: "length vectors = length ts" by (rule assms(4))
    from mv Inr doc have rows: "truncate_rows (py_float env) d vectors = Inr doc"
      by (simp add: try_block_vectors)
    note tr = truncate_rows_Inr [OF rows]
    from tr n have "length doc = length ts" by simp
    moreover from tr n mv
    have "\<forall>i<length ts. map_float (py_float env) (slice_to d (vectors' ! i)) = Inr (doc ! i)"
      if "model_vectors env model_name (PyList ts) = Inr vectors'" for vectors'
      using that by simp
    ultimately show ?thesis using None Inr by (auto simp: library_unavailable_def)
  qed
qed

theorem output_length_matches_texts_witness:
  "json_loads env_working hello_world = Inr (PyList [PyStr ''hello'', PyStr ''world''])
   \<and> stdout (minilm_embed env_working
        [''minilm_embed.py'', hello_world, ''all-MiniLM-L6-v2'', ''2'']) = [[[1, 2], [1, 2]]]
   \<and> length [[1, 2], [1, 2 :: int]] = length [PyStr ''hello'', PyStr ''world'' :: int pyval]"
proof -
  have texts: "json_loads env_working hello_world
               = Inr (PyList [PyStr ''hello'', PyStr ''world''])"
    by (simp add: sample_env_simps sample_json_loads_simps)
  have dim: "py_int env_working ''2'' = Inr 2"
    by (simp add: sample_env_simps sample_int_simps)
  have out: "stdout (minilm_embed env_working
        [''minilm_embed.py'', hello_world, ''all-MiniLM-L6-v2'', ''2'']) = [[[1, 2], [1, 2]]]"
    by (simp add: sample_runs)
  have contract: "\<And>vectors. model_vectors env_working ''all-MiniLM-L6-v2''
        (PyList [PyStr ''hello'', PyStr ''world'']) = Inr vectors
      \<Longrightarrow> length vectors = length [PyStr ''hello'', PyStr ''world'' :: int pyval]"
    by (auto simp: model_vectors_def and_then_def sample_env_simps sample_encode_def)
  from output_length_matches_texts [OF texts dim out contract] texts out
  show ?thesis by simp
qed

text \<open>
  Claim C7 says the output for no texts is the empty array on every path. Both handlers
  build the row \<open>[0.0]*dim\<close> before they multiply it by the number of texts: with the
  library missing and a dimension that is no index the repetition raises, nothing is
  printed and the exit status is 1.
\<close>

theorem empty_input_counterexample:
  "json_loads env_missing ''[]'' = Inr (PyList [])
   \<and> py_int env_missing ''9223372036854775808'' = Inr 9223372036854775808
   \<and> stdout (minilm_embed env_missing
        [''minilm_embed.py'', ''[]'', ''all-MiniLM-L6-v2'', ''9223372036854775808'']) = []
   \<and> exit_status (ending (minilm_embed env_missing
        [''minilm_embed.py'', ''[]'', ''all-MiniLM-L6-v2'', ''9223372036854775808''])) = 1"
  by (simp add: minilm_embed_def import_fallback_def argv_index_def and_then_def
      print_and_exit_def uncaught_def sample_env_simps sample_json_loads_simps
      sample_int_simps py_repeat_overflow [OF sample_fits(2)])

text \<open>
  Claim C7, amended. For the empty list of input texts the output is the empty array,
  whether the library is missing or present and whether the model loads or not, for
  every dimension on the success path and, on the two fallback paths, for every
  dimension \<open>d\<close> for which Python can build \<open>[0.0]*d\<close> (an index, the row within what a
  list can hold). On the success path this rests on \<open>encode\<close> returning no vector for
  no text.
\<close>

theorem empty_input_empty_output:
  fixes env :: "('n, 'f::zero) env"
  assumes "json_loads env a1 = Inr (PyList [])" and "py_int env a3 = Inr d"
    and "import_SentenceTransformer env = None \<or> library_unavailable env"
    and "\<And>vectors. model_vectors env model_name (PyList []) = Inr vectors \<Longrightarrow> vectors = []"
    and "library_unavailable env \<or> (\<exists>e. try_block env (PyList []) model_name d = Inl e)
         \<Longrightarrow> count_fits d \<and> list_fits (memory_limit env) (nat d)"
  shows "stdout (minilm_embed env (prog # a1 # model_name # a3 # rest)) = [[]]
         \<and> ending (minilm_embed env (prog # a1 # model_name # a3 # rest)) = Exit 0"
proof -
  have n: "py_len (PyList [] :: 'f pyval) = Inr 0" by simp
  have zeros: "print_and_exit (zero_fallback (memory_limit env) (PyList [] :: 'f pyval) d)
               = zero_outcome 0 d"
    if "library_unavailable env \<or> (\<exists>e. try_block env (PyList []) model_name d = Inl e)"
  proof -
    from assms(5) [OF that] have "zero_lists_fit (memory_limit env) 0 d"
      by (simp add: zero_lists_fit_def list_fits_def)
    from print_and_exit_zeros [OF this n] show ?thesis .
  qed
  show ?thesis
  proof (cases "library_unavailable env")
    case True
    with zeros show ?thesis
      by (simp add: run_parsed [OF assms(1,2)] library_unavailable_def zero_outcome_def)
  next
    case False
    with assms(3) have imp: "import_SentenceTransformer env = None" by simp
    show ?thesis
    proof (cases "try_block env (PyList []) model_name d")
      case (Inl e)
      with imp zeros show ?thesis
        by (simp add: run_parsed [OF assms(1,2)] zero_outcome_def)
    next
      case (Inr rows)
      then obtain vectors where mv: "model_vectors env model_name (PyList []) = Inr vectors"
        by (auto simp: try_block_def and_then_def split: sum.splits)
      then have "vectors = []" by (rule assms(4))
      with mv Inr have "rows = []" by (simp add: try_block_vectors)
      with run_try_succeeds [OF imp assms(1,2) Inr] show ?thesis by simp
    qed
  qed
qed

theorem empty_input_empty_output_witness:
  "json_loads env_working ''[]'' = Inr (PyList [])
   \<and> stdout (minilm_embed env_working
        [''minilm_embed.py'', ''[]'', ''all-MiniLM-L6-v2'', ''4'']) = [[]]
   \<and> ending (minilm_embed env_working
        [''minilm_embed.py'', ''[]'', ''all-MiniLM-L6-v2'', ''4'']) = Exit 0"
proof -
  have texts: "json_loads env_working ''[]'' = Inr (PyList [])"
    by (simp add: sample_env_simps sample_json_loads_simps)
  have dim: "py_int env_working ''4'' = Inr 4"
    by (simp add: sample_env_simps sample_int_simps)
  have imp: "import_SentenceTransformer env_working = None \<or> library_unavailable env_working"
    by (simp add: sample_env_simps)
  have contract: "\<And>vectors. model_vectors env_working ''all-MiniLM-L6-v2'' (PyList []) = Inr vectors
      \<Longrightarrow> vectors = []"
    by (auto simp: model_vectors_def and_then_def sample_env_simps sample_encode_def)
  have fits: "count_fits 4 \<and> list_fits (memory_limit env_working) (nat 4)"
    by (simp add: sample_env_simps count_fits_def list_fits_def PY_SSIZE_T_MAX_def)
  from empty_input_empty_output [where prog = "''minilm_embed.py''" and rest = "[]",
      OF texts dim imp contract fits] texts
  show ?thesis by simp
qed

text \<open>
  Claim C1 says every element of the output has length exactly \<open>dimension\<close>. The script
  only truncates: a model with three components per vector and a dimension of 4 give
  vectors of length 3.
\<close>

theorem vector_length_counterexample:
  "py_int env_working ''4'' = Inr 4
   \<and> map (map length) (stdout (minilm_embed env_working
        [''minilm_embed.py'', hello_world, ''all-MiniLM-L6-v2'', ''4''])) = [[3, 3]]"
  by (simp add: sample_runs sample_env_simps sample_int_simps)

text \<open>
  Claim C1, amended. For a dimension \<open>d \<ge> 0\<close> and every invocation that produces output:
  on both fallback paths every element of the output has length exactly \<open>d\<close>; on the
  success path element \<open>i\<close> has length \<open>min d (len v\<^sub>i)\<close> for the model's vector
  \<open>v\<^sub>i\<close>, so exactly \<open>d\<close> when the model's vector has at least \<open>d\<close> components.
\<close>

theorem output_vector_lengths:
  fixes env :: "('n, 'f::zero) env"
  assumes "json_loads env a1 = Inr texts" and "py_int env a3 = Inr d" and "0 \<le> d"
    and "stdout (minilm_embed env (prog # a1 # model_name # a3 # rest)) = [doc]"
  shows "(library_unavailable env \<or> (\<exists>e. try_block env texts model_name d = Inl e)
            \<longrightarrow> (\<forall>v\<in>set doc. length v = nat d))
         \<and> (\<forall>vectors. import_SentenceTransformer env = None
               \<and> model_vectors env model_name texts = Inr vectors
               \<and> try_block env texts model_name d = Inr doc
            \<longrightarrow> map length doc = map (\<lambda>v. min (nat d) (length v)) vectors)"
proof (cases "import_SentenceTransformer env")
  case (Some e)
  with assms(4) have out: "stdout (print_and_exit (zero_fallback (memory_limit env) texts d)) = [doc]"
    by (simp add: run_parsed [OF assms(1,2)] uncaught_def split: if_splits)
  from print_and_exit_zero_fallback_stdout [OF out] Some show ?thesis by auto
next
  case None
  show ?thesis
  proof (cases "try_block env texts model_name d")
    case (Inl e)
    with None assms(4)
    have out: "stdout (print_and_exit (zero_fallback (memory_limit env) texts d)) = [doc]"
      by (simp add: run_parsed [OF assms(1,2)])
    from print_and_exit_zero_fallback_stdout [OF out] Inl show ?thesis by auto
  next
    case (Inr rows)
    with None assms(4) have doc: "doc = rows"
      by (simp add: run_parsed [OF assms(1,2)])
    have "map length doc = map (\<lambda>v. min (nat d) (length v)) vectors"
      if "model_vectors env model_name texts = Inr vectors" for vectors
    proof -
      from that Inr doc have "truncate_rows (py_float env) d vectors = Inr doc"
        by (simp add: try_block_vectors)
      from truncate_rows_lengths [OF this] show ?thesis
        by (simp add: slice_to_length [OF assms(3)])
    qed
    with None Inr show ?thesis by (auto simp: library_unavailable_def)
  qed
qed

theorem output_vector_lengths_witness:
  "py_int env_working ''2'' = Inr 2
   \<and> stdout (minilm_embed env_working
        [''minilm_embed.py'', hello_world, ''all-MiniLM-L6-v2'', ''2'']) = [[[1, 2], [1, 2]]]
   \<and> map length [[1, 2], [1, 2 :: int]] = map (\<lambda>v. min (nat 2) (length v)) [[1, 2, 3], [1, 2, 3 :: int]]"
proof -
  have texts: "json_loads env_working hello_world
               = Inr (PyList [PyStr ''hello'', PyStr ''world''])"
    by (simp add: sample_env_simps sample_json_loads_simps)
  have dim: "py_int env_working ''2'' = Inr 2"
    by (simp add: sample_env_simps sample_int_simps)
  have pos: "(0::int) \<le> 2" by simp
  have out: "stdout (minilm_embed env_working
        [''minilm_embed.py'', hello_world, ''all-MiniLM-L6-v2'', ''2'']) = [[[1, 2], [1, 2]]]"
    by (simp add: sample_runs)
  have mv: "model_vectors env_working ''all-MiniLM-L6-v2''
        (PyList [PyStr ''hello'', PyStr ''world'']) = Inr [[1, 2, 3], [1, 2, 3]]"
    by (simp add: model_vectors_def and_then_def sample_env_simps sample_encode_def)
  have tb: "try_block env_working (PyList [PyStr ''hello'', PyStr ''world''])
        ''all-MiniLM-L6-v2'' 2 = Inr [[1, 2], [1, 2]]"
    by (simp add: try_block_def mv and_then_def slice_to_def sample_env_simps)
  from output_vector_lengths [OF texts dim pos out] mv tb dim out
  show ?thesis by (simp add: sample_env_simps)
qed

end
